theory Spec2Isabelle
  imports Main "HOL-Library.AList" "HOL-Library.Sublist" "HOL-Library.List_Lexorder" "HOL-Library.Char_ord"
begin

section \<open>Python values, exceptions and responses\<close>

text \<open>
  The four handlers receive a JSON event. Python reads it dynamically, so the event is
  a value of any JSON shape; a missing attribute or a non-iterable value is an exception
  of the program, not an ill-typed input. Numbers are integers here: the handlers only
  test a number for truthiness and never compute with it. A well-formed \<open>JDict\<close> has
  distinct keys; lookups take the first binding.
\<close>

datatype json =
    JNull
  | JBool bool
  | JNum int
  | JStr string
  | JList "json list"
  | JDict "(string \<times> json) list"

text \<open>
  An f-string is kept as its pieces: literal text, an interpolated string, and an
  interpolated list of strings (which Python renders by \<open>repr\<close>).
\<close>

datatype piece = Lit string | Val string | Vals "string list"

type_synonym msg = "piece list"

text \<open>
  The exception classes that occur. All of them derive from Python's \<open>Exception\<close>;
  \<open>ClientError\<close> carries the error code of the service (\<open>NoSuchKey\<close>, \<open>404\<close>, ...).
  The text is what \<open>str(e)\<close> gives.
\<close>

datatype exn =
    ValueError msg
  | TypeError msg
  | AttributeError msg
  | ClientError string msg
  | TimeoutExpired msg
  | OSError msg
  | Exception msg

fun str_of :: "exn \<Rightarrow> msg" where
  "str_of (ValueError t) = t"
| "str_of (TypeError t) = t"
| "str_of (AttributeError t) = t"
| "str_of (ClientError c t) = t"
| "str_of (TimeoutExpired t) = t"
| "str_of (OSError t) = t"
| "str_of (Exception t) = t"

text \<open>
  The body of a response, one constructor per shape of the dictionary that is passed to
  \<open>json.dumps\<close>: \<open>{"error"}\<close>, \<open>{"message", "buckets"}\<close>,
  \<open>{"message", "restored_buckets", "failed_buckets"}\<close> and \<open>{"error", "failed_buckets"}\<close>.
\<close>

datatype body =
    Error_body msg
  | Buckets_body msg "string list"
  | Restored_body msg "string list" "string list"
  | Failed_body msg "string list"

record response =
  statusCode :: nat
  body :: body

section \<open>The world outside the handler\<close>

text \<open>
  Contents of a file or of a stored object: the gzip compression of a content, the JSON
  document \<open>{"last_backup_time": t.isoformat()}\<close> of a checkpoint, or any other bytes
  (which are neither a gzip stream nor such a document).
\<close>

datatype content =
    Bytes string
  | Gzip_of content
  | Checkpoint_json int

text \<open>The calls that leave the process, recorded in the order they are made.\<close>

datatype event =
    Secret_get string
  | S3_get string
  | S3_put string
  | S3_upload string
  | S3_download string
  | S3_list string
  | Run "string list"

text \<open>
  Time is in microseconds since the epoch. \<open>s3\<close> holds the objects of the storage bucket
  \<open>S3_BUCKET\<close>, \<open>files\<close> the local files and \<open>dirs\<close> the local directories under
  \<open>/tmp\<close>; \<open>trace\<close> is the record of outside calls, oldest first.
\<close>

record state =
  clock :: int
  s3 :: "(string \<times> content) list"
  files :: "(string \<times> content) list"
  dirs :: "string list"
  trace :: "event list"

text \<open>What one run of the \<open>influx\<close> binary does: how long it takes, its exit status and
  output, and the files it writes into the directory it is given (\<open>influx backup\<close>).\<close>

record proc =
  elapsed :: int
  returncode :: int
  stdout :: string
  stderr :: string
  outfiles :: "(string \<times> content) list"

text \<open>
  Everything the handlers cannot decide themselves: the process environment, the secret
  store, faults of the storage service and of the file system, the \<open>influx\<close> binary, and
  the library functions \<open>json.loads\<close>, \<open>strftime\<close>, \<open>strptime\<close> (by whether it accepts
  a string for a format) and \<open>str\<close> on a value that is not a string. Quotation marks
  inside the literal messages of the handlers are left out.
\<close>

record env =
  environ :: "string \<Rightarrow> string option"
  json_loads :: "string \<Rightarrow> json option"
  secret_value :: "string \<Rightarrow> exn + string"
  s3_get_error :: "string \<Rightarrow> exn option"
  s3_put_error :: "string \<Rightarrow> exn option"
  s3_upload_error :: "string \<Rightarrow> exn option"
  s3_download_error :: "string \<Rightarrow> exn option"
  s3_list_error :: "string \<Rightarrow> exn option"
  influx :: "string list \<Rightarrow> proc"
  gzip_error :: "string \<Rightarrow> exn option"
  remove_error :: "string \<Rightarrow> bool"
  strftime :: "string \<Rightarrow> int \<Rightarrow> string"
  strptime_ok :: "string \<Rightarrow> string \<Rightarrow> bool"
  py_str :: "json \<Rightarrow> string"

section \<open>Programs that may raise\<close>

type_synonym 'a prog = "state \<Rightarrow> (exn + 'a) \<times> state"

definition succeed :: "'a \<Rightarrow> 'a prog" where
  "succeed x = (\<lambda>s. (Inr x, s))"

definition raise :: "exn \<Rightarrow> 'a prog" where
  "raise e = (\<lambda>s. (Inl e, s))"

definition andthen :: "'a prog \<Rightarrow> ('a \<Rightarrow> 'b prog) \<Rightarrow> 'b prog" where
  "andthen m f = (\<lambda>s. case m s of (Inl e, s') \<Rightarrow> (Inl e, s') | (Inr x, s') \<Rightarrow> f x s')"

text \<open>\<open>try: m finally: fin\<close>, where \<open>fin\<close> itself cannot raise.\<close>

definition try_finally :: "'a prog \<Rightarrow> (state \<Rightarrow> state) \<Rightarrow> 'a prog" where
  "try_finally m fin = (\<lambda>s. case m s of (r, s') \<Rightarrow> (r, fin s'))"

definition modify :: "(state \<Rightarrow> state) \<Rightarrow> unit prog" where
  "modify f = (\<lambda>s. (Inr (), f s))"

definition record_call :: "event \<Rightarrow> state \<Rightarrow> state" where
  "record_call ev s = s\<lparr>trace := trace s @ [ev]\<rparr>"

section \<open>Library calls\<close>

definition dq :: string where
  "dq = [CHR 0x22]"

fun join :: "string \<Rightarrow> string list \<Rightarrow> string" where
  "join sep [] = []"
| "join sep [x] = x"
| "join sep (x # y # ys) = x @ sep @ join sep (y # ys)"

text \<open>\<open>str.strip()\<close> on ASCII text: the characters Python counts as white space.\<close>

definition is_space :: "char \<Rightarrow> bool" where
  "is_space c = (c \<in> set [CHR 0x09, CHR 0x0A, CHR 0x0B, CHR 0x0C, CHR 0x0D,
                          CHR 0x1C, CHR 0x1D, CHR 0x1E, CHR 0x1F, CHR 0x20])"

definition strip :: "string \<Rightarrow> string" where
  "strip s = rev (dropWhile is_space (rev (dropWhile is_space s)))"

text \<open>Truth value of a JSON value in a Python condition.\<close>

fun truthy :: "json \<Rightarrow> bool" where
  "truthy JNull = False"
| "truthy (JBool b) = b"
| "truthy (JNum n) = (n \<noteq> 0)"
| "truthy (JStr s) = (s \<noteq> [])"
| "truthy (JList xs) = (xs \<noteq> [])"
| "truthy (JDict kvs) = (kvs \<noteq> [])"

text \<open>\<open>for x in v\<close>: a list gives its elements, a string its characters, a dictionary its
  keys; anything else is not iterable.\<close>

fun iterate :: "json \<Rightarrow> exn + json list" where
  "iterate (JList xs) = Inr xs"
| "iterate (JStr s) = Inr (map (\<lambda>c. JStr [c]) s)"
| "iterate (JDict kvs) = Inr (map (\<lambda>kv. JStr (fst kv)) kvs)"
| "iterate v = Inl (TypeError [Lit ''object is not iterable''])"

text \<open>\<open>event.get(key, default)\<close>: only a dictionary has \<open>get\<close>.\<close>

fun dict_get :: "json \<Rightarrow> string \<Rightarrow> json \<Rightarrow> exn + json" where
  "dict_get (JDict kvs) k d = Inr (case map_of kvs k of Some v \<Rightarrow> v | None \<Rightarrow> d)"
| "dict_get v k d = Inl (AttributeError [Lit ''object has no attribute get''])"

text \<open>\<open>all([...])\<close> over values read with \<open>os.environ.get\<close>: each one set and not empty.\<close>

fun all_set :: "string option list \<Rightarrow> bool" where
  "all_set [] = True"
| "all_set (None # vs) = False"
| "all_set (Some v # vs) = (v \<noteq> [] \<and> all_set vs)"

text \<open>\<open>os.remove\<close> inside \<open>try ... except OSError\<close>: the failure is logged and dropped, and
  the file stays.\<close>

definition remove_quietly :: "env \<Rightarrow> string \<Rightarrow> state \<Rightarrow> state" where
  "remove_quietly env path s =
     (if remove_error env path then s else s\<lparr>files := AList.delete path (files s)\<rparr>)"

definition file_exists :: "state \<Rightarrow> string \<Rightarrow> bool" where
  "file_exists s path = (map_of (files s) path \<noteq> None)"

text \<open>\<open>subprocess.run(cmd, timeout=t)\<close>: the call is recorded and the clock moves by the
  time the process ran, at most the timeout, after which \<open>TimeoutExpired\<close> is raised.\<close>

definition seconds :: "int \<Rightarrow> int" where
  "seconds n = n * 1000000"

definition subprocess_run :: "env \<Rightarrow> string list \<Rightarrow> int \<Rightarrow> proc prog" where
  "subprocess_run env cmd timeout s =
     (let p = influx env cmd; s1 = record_call (Run cmd) s in
      if seconds timeout < elapsed p
      then (Inl (TimeoutExpired [Lit ''Command '', Vals cmd, Lit '' timed out'']),
            s1\<lparr>clock := clock s1 + seconds timeout\<rparr>)
      else (Inr p, s1\<lparr>clock := clock s1 + elapsed p\<rparr>))"

definition get_influx_token :: "env \<Rightarrow> string \<Rightarrow> string prog" where
  "get_influx_token env secret_arn s =
     (secret_value env secret_arn, record_call (Secret_get secret_arn) s)"

section \<open>Checkpoint store (daily backup)\<close>

definition checkpoint_key :: "string \<Rightarrow> string" where
  "checkpoint_key influx_bucket =
     ''influx-backups/last_incremental_timestamp_'' @ influx_bucket @ ''.json''"

text \<open>\<open>get_object\<close>: a fault of the service, a missing key, or the stored object.\<close>

definition s3_get_object :: "env \<Rightarrow> string \<Rightarrow> content prog" where
  "s3_get_object env key s =
     (case s3_get_error env key of
        Some e \<Rightarrow> (Inl e, record_call (S3_get key) s)
      | None \<Rightarrow>
          (case map_of (s3 s) key of
             None \<Rightarrow> (Inl (ClientError ''NoSuchKey'' [Lit ''The specified key does not exist.'']),
                      record_call (S3_get key) s)
           | Some c \<Rightarrow> (Inr c, record_call (S3_get key) s)))"

definition s3_put_object :: "env \<Rightarrow> string \<Rightarrow> content \<Rightarrow> unit prog" where
  "s3_put_object env key c s =
     (case s3_put_error env key of
        Some e \<Rightarrow> (Inl e, record_call (S3_put key) s)
      | None \<Rightarrow> (Inr (), (record_call (S3_put key) s)\<lparr>s3 := AList.update key c (s3 s)\<rparr>))"

fun is_NoSuchKey :: "exn \<Rightarrow> bool" where
  "is_NoSuchKey (ClientError code t) = (code = ''NoSuchKey'')"
| "is_NoSuchKey e = False"

definition timedelta_hours :: "int \<Rightarrow> int" where
  "timedelta_hours h = seconds (h * 3600)"

text \<open>\<open>datetime.fromisoformat(json.loads(body)["last_backup_time"])\<close>: only a checkpoint
  document decodes.\<close>

fun decode_checkpoint :: "content \<Rightarrow> exn + int" where
  "decode_checkpoint (Checkpoint_json t) = Inr t"
| "decode_checkpoint c = Inl (ValueError [Lit ''not a checkpoint document''])"

definition get_last_backup_time :: "env \<Rightarrow> string \<Rightarrow> int prog" where
  "get_last_backup_time env influx_bucket s =
     (case s3_get_object env (checkpoint_key influx_bucket) s of
        (Inr c, s1) \<Rightarrow> (decode_checkpoint c, s1)
      | (Inl e, s1) \<Rightarrow>
          if is_NoSuchKey e then (Inr (clock s1 - timedelta_hours 24), s1)
          else (Inl e, s1))"

definition update_last_backup_time :: "env \<Rightarrow> int \<Rightarrow> string \<Rightarrow> unit prog" where
  "update_last_backup_time env timestamp influx_bucket =
     s3_put_object env (checkpoint_key influx_bucket) (Checkpoint_json timestamp)"

section \<open>Daily incremental backup\<close>

record settings =
  influx_url :: string
  influx_org :: string
  influx_token :: string
  s3_bucket :: string

definition influx_bin :: string where
  "influx_bin = ''/opt/bin/influx''"

definition temp_csv :: string where
  "temp_csv = ''/tmp/data.csv''"

definition temp_gzip :: string where
  "temp_gzip = ''/tmp/data.csv.gz''"

definition getenv_or :: "env \<Rightarrow> string \<Rightarrow> string \<Rightarrow> string" where
  "getenv_or env k d = (case environ env k of None \<Rightarrow> d | Some v \<Rightarrow> v)"

definition now :: "int prog" where
  "now = (\<lambda>s. (Inr (clock s), s))"

definition lift :: "exn + 'a \<Rightarrow> 'a prog" where
  "lift r = (\<lambda>s. (r, s))"

definition default_buckets :: json where
  "default_buckets = JList
     [JDict [(''name'', JStr ''asset_bucket''),
             (''measurements'', JList [JStr ''cloud_telemetry'', JStr ''telemetry''])],
      JDict [(''name'', JStr ''cloud_bucket''),
             (''measurements'', JList [JStr ''savings''])]]"

text \<open>\<open>[m.strip() for m in measurements if m.strip()]\<close>: only a string has \<open>strip\<close>.\<close>

fun strip_measurements :: "json list \<Rightarrow> exn + string list" where
  "strip_measurements [] = Inr []"
| "strip_measurements (JStr m # ms) =
     (case strip_measurements ms of
        Inl e \<Rightarrow> Inl e
      | Inr r \<Rightarrow> Inr (if strip m \<noteq> [] then strip m # r else r))"
| "strip_measurements (v # ms) = Inl (AttributeError [Lit ''object has no attribute strip''])"

text \<open>
  One round of the validation loop. The message of the \<open>ValueError\<close> is an f-string whose
  last field \<open>{'name': str, 'measurements': list}\<close> reads as the expression \<open>'name'\<close>
  with a format specification, so formatting it raises a \<open>ValueError\<close> of its own; the
  class is the same and the text is the one Python gives.
\<close>

definition validate_bucket :: "json \<Rightarrow> exn + (string \<times> string list)" where
  "validate_bucket bucket =
     (case bucket of
        JDict kvs \<Rightarrow>
          (case (map_of kvs ''name'', map_of kvs ''measurements'') of
             (Some n, Some m) \<Rightarrow>
               (case n of
                  JStr name \<Rightarrow>
                    (case iterate m of
                       Inl e \<Rightarrow> Inl e
                     | Inr ms \<Rightarrow>
                         (case strip_measurements ms of
                            Inl e \<Rightarrow> Inl e
                          | Inr r \<Rightarrow> Inr (strip name, r)))
                | _ \<Rightarrow> Inl (AttributeError [Lit ''object has no attribute strip'']))
           | _ \<Rightarrow> Inl (ValueError [Lit ''Invalid format specifier'']))
      | _ \<Rightarrow> Inl (ValueError [Lit ''Invalid format specifier'']))"

fun validate_buckets :: "json list \<Rightarrow> exn + (string \<times> string list) list" where
  "validate_buckets [] = Inr []"
| "validate_buckets (b # bs) =
     (case validate_bucket b of
        Inl e \<Rightarrow> Inl e
      | Inr c \<Rightarrow>
          (case validate_buckets bs of
             Inl e \<Rightarrow> Inl e
           | Inr cs \<Rightarrow> Inr (c # cs)))"

definition artifact_key :: "string \<Rightarrow> string \<Rightarrow> string" where
  "artifact_key day influx_bucket =
     (''influx-backups/daily/'' @ day @ ''/'' @ influx_bucket @ ''/'')
       @ (''data-'' @ day @ ''.csv.gz'')"

definition query_command ::
  "env \<Rightarrow> settings \<Rightarrow> string \<Rightarrow> string list \<Rightarrow> int \<Rightarrow> int \<Rightarrow> string list" where
  "query_command env cfg influx_bucket measurements start_time stop_time =
     (let start_time_str = strftime env ''%Y-%m-%dT%H:%M:%SZ'' start_time;
          stop_time_str = strftime env ''%Y-%m-%dT%H:%M:%SZ'' stop_time;
          measurement_filters =
            join '' or '' (map (\<lambda>m. ''r._measurement == '' @ dq @ m @ dq) measurements);
          query = ''from(bucket: '' @ dq @ influx_bucket @ dq @ '') ''
                @ ''|> range(start: '' @ start_time_str @ '', stop: '' @ stop_time_str @ '') ''
                @ ''|> filter(fn: (r) => '' @ measurement_filters @ '')''
      in [influx_bin, ''query'', query,
          ''--host'', influx_url cfg,
          ''--org'', influx_org cfg,
          ''--token'', influx_token cfg,
          ''--raw''])"

text \<open>\<open>with open(path, "w") as f: subprocess.run(cmd, stdout=f, timeout=300)\<close>: the file is
  created empty before the process starts and holds what the process wrote, also when
  the call times out.\<close>

definition query_to_file :: "env \<Rightarrow> string list \<Rightarrow> string \<Rightarrow> proc prog" where
  "query_to_file env cmd path s =
     (case subprocess_run env cmd 300 (s\<lparr>files := AList.update path (Bytes []) (files s)\<rparr>) of
        (r, s1) \<Rightarrow>
          (r, s1\<lparr>files := AList.update path (Bytes (stdout (influx env cmd))) (files s1)\<rparr>))"

text \<open>\<open>os.path.getsize(path) == 0\<close>; a gzip stream and a JSON document are never empty.\<close>

definition getsize_is_zero :: "string \<Rightarrow> bool prog" where
  "getsize_is_zero path s =
     (case map_of (files s) path of
        None \<Rightarrow> (Inl (OSError [Lit ''No such file or directory: '', Val path]), s)
      | Some (Bytes b) \<Rightarrow> (Inr (b = []), s)
      | Some c \<Rightarrow> (Inr False, s))"

text \<open>\<open>gzip.open(dst, "wb").writelines(open(src, "rb"))\<close>: a failure while writing leaves
  an incomplete destination file behind.\<close>

definition compress :: "env \<Rightarrow> string \<Rightarrow> string \<Rightarrow> unit prog" where
  "compress env src dst s =
     (case map_of (files s) src of
        None \<Rightarrow> (Inl (OSError [Lit ''No such file or directory: '', Val src]), s)
      | Some c \<Rightarrow>
          (case gzip_error env dst of
             Some e \<Rightarrow> (Inl e, s\<lparr>files := AList.update dst (Bytes []) (files s)\<rparr>)
           | None \<Rightarrow> (Inr (), s\<lparr>files := AList.update dst (Gzip_of c) (files s)\<rparr>)))"

text \<open>\<open>with open(path, "rb") as f: s3_client.upload_fileobj(f, Bucket, Key)\<close>.\<close>

definition s3_upload_file :: "env \<Rightarrow> string \<Rightarrow> string \<Rightarrow> unit prog" where
  "s3_upload_file env path key s =
     (case map_of (files s) path of
        None \<Rightarrow> (Inl (OSError [Lit ''No such file or directory: '', Val path]), s)
      | Some c \<Rightarrow>
          (case s3_upload_error env key of
             Some e \<Rightarrow> (Inl e, record_call (S3_upload key) s)
           | None \<Rightarrow>
               (Inr (), (record_call (S3_upload key) s)\<lparr>s3 := AList.update key c (s3 s)\<rparr>)))"

text \<open>The body of the loop over the buckets: one bucket's unit of work. It returns the
  list of backed-up buckets, extended when this bucket was backed up.\<close>

definition process_bucket ::
  "env \<Rightarrow> settings \<Rightarrow> int \<Rightarrow> string list \<Rightarrow> string \<times> string list \<Rightarrow> string list prog" where
  "process_bucket env cfg current_time backed_up_buckets bucket =
     (let influx_bucket = fst bucket; measurements = snd bucket in
      if measurements = [] then succeed backed_up_buckets
      else
        let daily_prefix = strftime env ''%Y-%m-%d'' current_time;
            s3_key = artifact_key daily_prefix influx_bucket
        in
        andthen (get_last_backup_time env influx_bucket) (\<lambda>start_time.
        andthen (query_to_file env
                   (query_command env cfg influx_bucket measurements start_time current_time)
                   temp_csv) (\<lambda>result.
        if returncode result \<noteq> 0
        then raise (Exception [Lit ''Query failed for '', Val influx_bucket, Lit '': '',
                               Val (stderr result)])
        else
        andthen (getsize_is_zero temp_csv) (\<lambda>empty.
        if empty
        then
          andthen (modify (remove_quietly env temp_csv)) (\<lambda>_.
          andthen (update_last_backup_time env current_time influx_bucket) (\<lambda>_.
          succeed (backed_up_buckets @ [influx_bucket])))
        else
          andthen (compress env temp_csv temp_gzip) (\<lambda>_.
          andthen (modify (remove_quietly env temp_csv)) (\<lambda>_.
          andthen (try_finally (s3_upload_file env temp_gzip s3_key)
                     (remove_quietly env temp_gzip)) (\<lambda>_.
          andthen (update_last_backup_time env current_time influx_bucket) (\<lambda>_.
          succeed (backed_up_buckets @ [influx_bucket])))))))))"

fun process_buckets ::
  "env \<Rightarrow> settings \<Rightarrow> int \<Rightarrow> string list \<Rightarrow> (string \<times> string list) list \<Rightarrow> string list prog"
  where
  "process_buckets env cfg current_time backed_up_buckets [] = succeed backed_up_buckets"
| "process_buckets env cfg current_time backed_up_buckets (bucket # buckets) =
     andthen (process_bucket env cfg current_time backed_up_buckets bucket)
       (\<lambda>backed_up'. process_buckets env cfg current_time backed_up' buckets)"

text \<open>The \<open>try\<close> block of the handler.\<close>

definition daily_backup_main :: "env \<Rightarrow> json \<Rightarrow> response prog" where
  "daily_backup_main env event =
     (let bucket_config_env = getenv_or env ''INFLUXDB_BUCKET_CONFIG'' [] in
      if \<not> all_set [environ env ''INFLUXDB_URL'', environ env ''INFLUXDB_TOKEN'',
                     environ env ''INFLUXDB_ORG'', environ env ''S3_BUCKET'']
      then raise (ValueError [Lit ''Missing required environment variables: INFLUXDB_URL, INFLUXDB_TOKEN, INFLUXDB_ORG, or S3_BUCKET''])
      else
        andthen (lift (dict_get event ''buckets'' (JList []))) (\<lambda>given.
        let buckets =
              (if \<not> truthy given
               then (if bucket_config_env \<noteq> []
                     then (case json_loads env bucket_config_env of
                             None \<Rightarrow> default_buckets
                           | Some v \<Rightarrow> v)
                     else default_buckets)
               else given)
        in
        andthen (lift (iterate buckets)) (\<lambda>items.
        andthen (lift (validate_buckets items)) (\<lambda>configs.
        andthen (get_influx_token env (getenv_or env ''INFLUXDB_TOKEN'' [])) (\<lambda>token.
        andthen now (\<lambda>current_time.
        andthen (process_buckets env
                   \<lparr>influx_url = getenv_or env ''INFLUXDB_URL'' [],
                    influx_org = getenv_or env ''INFLUXDB_ORG'' [],
                    influx_token = token,
                    s3_bucket = getenv_or env ''S3_BUCKET'' []\<rparr>
                   current_time [] configs) (\<lambda>backed_up_buckets.
        succeed \<lparr>statusCode = 200,
                 body = Buckets_body
                          [Lit ''Incremental backup completed for buckets '',
                           Vals backed_up_buckets]
                          backed_up_buckets\<rparr>)))))))"

text \<open>The \<open>except\<close> clauses shared by the four handlers: \<open>subprocess.TimeoutExpired\<close>
  first, then any \<open>Exception\<close>.\<close>

definition handle :: "response prog \<Rightarrow> state \<Rightarrow> response \<times> state" where
  "handle main s =
     (case main s of
        (Inr r, s') \<Rightarrow> (r, s')
      | (Inl (TimeoutExpired t), s') \<Rightarrow>
          (\<lparr>statusCode = 500, body = Error_body (Lit ''Operation timed out: '' # t)\<rparr>, s')
      | (Inl e, s') \<Rightarrow> (\<lparr>statusCode = 500, body = Error_body (str_of e)\<rparr>, s'))"

definition daily_backup_handler :: "env \<Rightarrow> json \<Rightarrow> state \<Rightarrow> response \<times> state" where
  "daily_backup_handler env event = handle (daily_backup_main env event)"

section \<open>Daily incremental restore\<close>

record target =
  bucket_name :: string
  s3_path :: string
  dest_bucket :: string

definition temp_dir :: string where
  "temp_dir = ''/tmp/restore''"

text \<open>\<open>os.makedirs(path, exist_ok=True)\<close>.\<close>

definition makedirs :: "string \<Rightarrow> state \<Rightarrow> state" where
  "makedirs path s = s\<lparr>dirs := List.insert path (dirs s)\<rparr>"

text \<open>\<open>os.rmdir\<close> inside \<open>try ... except OSError\<close>: a directory that still has entries
  stays, and the failure is only logged.\<close>

definition entries :: "state \<Rightarrow> string \<Rightarrow> string list" where
  "entries s path = filter (prefix (path @ ''/'')) (map fst (files s) @ dirs s)"

definition rmdir_quietly :: "string \<Rightarrow> state \<Rightarrow> state" where
  "rmdir_quietly path s =
     (if entries s path = [] then s\<lparr>dirs := removeAll path (dirs s)\<rparr> else s)"

text \<open>\<open>s3_client.download_file(Bucket, Key, Filename)\<close>; a missing object is reported as a
  \<open>ClientError\<close> with code \<open>404\<close>.\<close>

definition s3_download_file :: "env \<Rightarrow> string \<Rightarrow> string \<Rightarrow> unit prog" where
  "s3_download_file env key filename s =
     (case s3_download_error env key of
        Some e \<Rightarrow> (Inl e, record_call (S3_download key) s)
      | None \<Rightarrow>
          (case map_of (s3 s) key of
             None \<Rightarrow> (Inl (ClientError ''404'' [Lit ''Not Found'']),
                      record_call (S3_download key) s)
           | Some c \<Rightarrow>
               (Inr (), (record_call (S3_download key) s)
                          \<lparr>files := AList.update filename c (files s)\<rparr>)))"

text \<open>\<open>with gzip.open(src, "rb") as f_in, open(dst, "wb") as f_out: f_out.write(f_in.read())\<close>:
  the destination is created before the source is read.\<close>

definition decompress :: "env \<Rightarrow> string \<Rightarrow> string \<Rightarrow> unit prog" where
  "decompress env src dst s =
     (case map_of (files s) src of
        None \<Rightarrow> (Inl (OSError [Lit ''No such file or directory: '', Val src]), s)
      | Some (Gzip_of c) \<Rightarrow>
          (case gzip_error env dst of
             Some e \<Rightarrow> (Inl e, s\<lparr>files := AList.update dst (Bytes []) (files s)\<rparr>)
           | None \<Rightarrow> (Inr (), s\<lparr>files := AList.update dst c (files s)\<rparr>))
      | Some c \<Rightarrow>
          (Inl (OSError [Lit ''Not a gzipped file'']),
           s\<lparr>files := AList.update dst (Bytes []) (files s)\<rparr>))"

definition restore_targets :: "string \<Rightarrow> target list" where
  "restore_targets backup_date =
     [\<lparr>bucket_name = ''asset_bucket'',
       s3_path = ''influx-backups/daily/'' @ backup_date @ ''/asset_bucket/'',
       dest_bucket = ''restored_asset_bucket''\<rparr>,
      \<lparr>bucket_name = ''cloud_bucket'',
       s3_path = ''influx-backups/daily/'' @ backup_date @ ''/cloud_bucket/'',
       dest_bucket = ''restored_cloud_bucket''\<rparr>]"

definition restore_key :: "string \<Rightarrow> target \<Rightarrow> string" where
  "restore_key backup_date bucket = s3_path bucket @ (''data-'' @ backup_date @ ''.csv.gz'')"

definition restore_gzip :: "target \<Rightarrow> string" where
  "restore_gzip bucket = temp_dir @ ''/'' @ bucket_name bucket @ ''_data.csv.gz''"

definition restore_csv :: "target \<Rightarrow> string" where
  "restore_csv bucket = temp_dir @ ''/'' @ bucket_name bucket @ ''_data.csv''"

definition write_command :: "settings \<Rightarrow> target \<Rightarrow> string list" where
  "write_command cfg bucket =
     [influx_bin, ''write'',
      ''--host'', influx_url cfg,
      ''--org'', influx_org cfg,
      ''--token'', influx_token cfg,
      ''--bucket'', dest_bucket bucket,
      ''--format'', ''csv'',
      ''--file'', restore_csv bucket]"

text \<open>The \<open>try\<close> block inside the loop: download, decompress, load.\<close>

definition restore_attempt :: "env \<Rightarrow> settings \<Rightarrow> string \<Rightarrow> target \<Rightarrow> unit prog" where
  "restore_attempt env cfg backup_date bucket =
     andthen (s3_download_file env (restore_key backup_date bucket) (restore_gzip bucket)) (\<lambda>_.
     andthen (decompress env (restore_gzip bucket) (restore_csv bucket)) (\<lambda>_.
     andthen (modify (remove_quietly env (restore_gzip bucket))) (\<lambda>_.
     andthen (subprocess_run env (write_command cfg bucket) 300) (\<lambda>result.
     if returncode result \<noteq> 0
     then raise (Exception [Lit ''Restore failed for '', Val (bucket_name bucket), Lit '': '',
                            Val (stderr result)])
     else modify (remove_quietly env (restore_csv bucket))))))"

text \<open>One round of the loop with its \<open>except\<close> clauses: a \<open>ClientError\<close> with code
  \<open>404\<close>, any other \<open>ClientError\<close>, any other \<open>Exception\<close>. Each of them records the
  bucket as failed and continues. The pair is \<open>(restored_buckets, failed_buckets)\<close>.\<close>

definition restore_bucket ::
  "env \<Rightarrow> settings \<Rightarrow> string \<Rightarrow> string list \<times> string list \<Rightarrow> target \<Rightarrow> state
     \<Rightarrow> (string list \<times> string list) \<times> state" where
  "restore_bucket env cfg backup_date tally bucket s =
     (case restore_attempt env cfg backup_date bucket s of
        (Inr u, s') \<Rightarrow> ((fst tally @ [bucket_name bucket], snd tally), s')
      | (Inl (ClientError code t), s') \<Rightarrow>
          (if code = ''404''
           then ((fst tally, snd tally @ [bucket_name bucket]), s')
           else ((fst tally, snd tally @ [bucket_name bucket]), s'))
      | (Inl e, s') \<Rightarrow> ((fst tally, snd tally @ [bucket_name bucket]), s'))"

fun restore_buckets ::
  "env \<Rightarrow> settings \<Rightarrow> string \<Rightarrow> string list \<times> string list \<Rightarrow> target list \<Rightarrow> state
     \<Rightarrow> (string list \<times> string list) \<times> state" where
  "restore_buckets env cfg backup_date tally [] s = (tally, s)"
| "restore_buckets env cfg backup_date tally (bucket # buckets) s =
     (case restore_bucket env cfg backup_date tally bucket s of
        (tally', s') \<Rightarrow> restore_buckets env cfg backup_date tally' buckets s')"

text \<open>The statements after the loop. \<open>dest_bucket\<close> in the message is the loop variable as
  the last round left it.\<close>

definition restore_response ::
  "string \<Rightarrow> target list \<Rightarrow> string list \<Rightarrow> string list \<Rightarrow> response" where
  "restore_response backup_date buckets restored_buckets failed_buckets =
     (if restored_buckets = [] \<and> failed_buckets \<noteq> []
      then \<lparr>statusCode = 500,
            body = Failed_body [Lit ''Restoration failed for all buckets: '', Vals failed_buckets]
                     failed_buckets\<rparr>
      else \<lparr>statusCode = (if restored_buckets \<noteq> [] then 200 else 500),
            body = Restored_body
                     [Lit ''Restoration completed for '', Val backup_date, Lit '' to bucket '',
                      Val (dest_bucket (last buckets))]
                     restored_buckets failed_buckets\<rparr>)"

text \<open>\<open>datetime.strptime(value, format)\<close> used as a check: a value that is not a string is
  a \<open>TypeError\<close>, which the \<open>except ValueError\<close> around the call does not catch.\<close>

definition check_format :: "env \<Rightarrow> json \<Rightarrow> string \<Rightarrow> msg \<Rightarrow> exn + string" where
  "check_format env v fmt invalid =
     (case v of
        JStr d \<Rightarrow> if strptime_ok env d fmt then Inr d else Inl (ValueError invalid)
      | _ \<Rightarrow> Inl (TypeError [Lit ''strptime() argument 1 must be str'']))"

definition daily_restore_main :: "env \<Rightarrow> json \<Rightarrow> response prog" where
  "daily_restore_main env event =
     (if \<not> all_set [environ env ''INFLUXDB_URL'', environ env ''INFLUXDB_TOKEN'',
                     environ env ''INFLUXDB_ORG'', environ env ''S3_BUCKET'']
      then raise (ValueError [Lit ''Missing required environment variables: INFLUXDB_URL, INFLUXDB_TOKEN, INFLUXDB_ORG, or S3_BUCKET''])
      else
        andthen (lift (dict_get event ''backup_date'' JNull)) (\<lambda>given.
        if \<not> truthy given
        then raise (ValueError [Lit ''Missing backup_date in event (format: YYYY-MM-DD)''])
        else
        andthen (lift (check_format env given ''%Y-%m-%d''
                   [Lit ''Invalid backup_date format, expected YYYY-MM-DD''])) (\<lambda>backup_date.
        let buckets = restore_targets backup_date in
        andthen (get_influx_token env (getenv_or env ''INFLUXDB_TOKEN'' [])) (\<lambda>token.
        andthen (modify (makedirs temp_dir)) (\<lambda>_.
        (\<lambda>s. case restore_buckets env
                      \<lparr>influx_url = getenv_or env ''INFLUXDB_URL'' [],
                       influx_org = getenv_or env ''INFLUXDB_ORG'' [],
                       influx_token = token,
                       s3_bucket = getenv_or env ''S3_BUCKET'' []\<rparr>
                      backup_date ([], []) buckets s of
                 (tally, s') \<Rightarrow>
                   (Inr (restore_response backup_date buckets (fst tally) (snd tally)),
                    rmdir_quietly temp_dir s')))))))"

definition daily_restore_handler :: "env \<Rightarrow> json \<Rightarrow> state \<Rightarrow> response \<times> state" where
  "daily_restore_handler env event = handle (daily_restore_main env event)"

section \<open>Monthly snapshot backup\<close>












section \<open>Monthly snapshot restore\<close>













section \<open>Auxiliary definitions for the statements\<close>


text \<open>The outside calls made between two states of one run.\<close>

definition new_calls :: "state \<Rightarrow> state \<Rightarrow> event list" where
  "new_calls s s' = drop (length (trace s)) (trace s')"

text \<open>The statements of the daily backup handler before its loop over the buckets: they
  give the settings, the run's current time and the validated bucket list.\<close>

definition daily_backup_setup ::
  "env \<Rightarrow> json \<Rightarrow> (settings \<times> int \<times> (string \<times> string list) list) prog" where
  "daily_backup_setup env event =
     (let bucket_config_env = getenv_or env ''INFLUXDB_BUCKET_CONFIG'' [] in
      if \<not> all_set [environ env ''INFLUXDB_URL'', environ env ''INFLUXDB_TOKEN'',
                     environ env ''INFLUXDB_ORG'', environ env ''S3_BUCKET'']
      then raise (ValueError [Lit ''Missing required environment variables: INFLUXDB_URL, INFLUXDB_TOKEN, INFLUXDB_ORG, or S3_BUCKET''])
      else
        andthen (lift (dict_get event ''buckets'' (JList []))) (\<lambda>given.
        let buckets =
              (if \<not> truthy given
               then (if bucket_config_env \<noteq> []
                     then (case json_loads env bucket_config_env of
                             None \<Rightarrow> default_buckets
                           | Some v \<Rightarrow> v)
                     else default_buckets)
               else given)
        in
        andthen (lift (iterate buckets)) (\<lambda>items.
        andthen (lift (validate_buckets items)) (\<lambda>configs.
        andthen (get_influx_token env (getenv_or env ''INFLUXDB_TOKEN'' [])) (\<lambda>token.
        andthen now (\<lambda>current_time.
        succeed (\<lparr>influx_url = getenv_or env ''INFLUXDB_URL'' [],
                    influx_org = getenv_or env ''INFLUXDB_ORG'' [],
                    influx_token = token,
                    s3_bucket = getenv_or env ''S3_BUCKET'' []\<rparr>, current_time, configs)))))))"

text \<open>The state right after the extraction of one bucket: the checkpoint was read, the
  query ran and its output is in the temporary CSV file.\<close>

definition after_query :: "env \<Rightarrow> string list \<Rightarrow> state \<Rightarrow> state" where
  "after_query env cmd s =
     s\<lparr>clock := clock s + min (elapsed (influx env cmd)) (seconds 300),
       files := AList.update temp_csv (Bytes (stdout (influx env cmd))) (files s),
       trace := trace s @ [Run cmd]\<rparr>"

definition after_start ::
  "env \<Rightarrow> settings \<Rightarrow> int \<Rightarrow> string \<Rightarrow> string list \<Rightarrow> int \<Rightarrow> state \<Rightarrow> state" where
  "after_start env cfg ct b ms start s =
     after_query env (query_command env cfg b ms start ct)
       (record_call (S3_get (checkpoint_key b)) s)"

text \<open>A concrete world for the examples: every variable but the bucket list is set,
  nothing fails, and the \<open>influx\<close> binary returns at once with no output.\<close>

definition demo_env :: env where
  "demo_env =
     \<lparr>environ = (\<lambda>k. if k = ''INFLUXDB_BUCKET_CONFIG'' then None else Some ''set''),
      json_loads = (\<lambda>v. None),
      secret_value = (\<lambda>arn. Inr ''token''),
      s3_get_error = (\<lambda>k. None),
      s3_put_error = (\<lambda>k. None),
      s3_upload_error = (\<lambda>k. None),
      s3_download_error = (\<lambda>k. None),
      s3_list_error = (\<lambda>k. None),
      influx = (\<lambda>cmd. \<lparr>elapsed = 1, returncode = 0, stdout = [], stderr = [], outfiles = []\<rparr>),
      gzip_error = (\<lambda>p. None),
      remove_error = (\<lambda>p. False),
      strftime = (\<lambda>fmt t. ''2024-01-01''),
      strptime_ok = (\<lambda>v fmt. True),
      py_str = (\<lambda>v. [])\<rparr>"

definition demo_state :: state where
  "demo_state = \<lparr>clock = 0, s3 = [], files = [], dirs = [], trace = []\<rparr>"

definition demo_cfg :: settings where
  "demo_cfg = \<lparr>influx_url = ''set'', influx_org = ''set'', influx_token = ''token'', s3_bucket = ''set''\<rparr>"

text \<open>The same world, except that the extraction query for the bucket \<open>b\<close> exits with
  status 1.\<close>

definition failing_for :: "string \<Rightarrow> env" where
  "failing_for b =
     demo_env\<lparr>influx := (\<lambda>cmd.
        if prefix (''from(bucket: '' @ dq @ b @ dq) (cmd ! 2)
        then \<lparr>elapsed = 1, returncode = 1, stdout = [], stderr = ''error'', outfiles = []\<rparr>
        else \<lparr>elapsed = 1, returncode = 0, stdout = [], stderr = [], outfiles = []\<rparr>)\<rparr>"

text \<open>A request for three buckets, and the states of the run on it in the world where the
  extraction of \<open>b2\<close> fails: after the token was fetched, and after \<open>b1\<close> was backed up
  (its extraction returned nothing).\<close>

definition three_buckets :: json where
  "three_buckets = JDict [(''buckets'', JList
     [JDict [(''name'', JStr ''b1''), (''measurements'', JList [JStr ''m1''])],
      JDict [(''name'', JStr ''b2''), (''measurements'', JList [JStr ''m2''])],
      JDict [(''name'', JStr ''b3''), (''measurements'', JList [JStr ''m3''])]])]"

definition demo_started :: state where
  "demo_started = \<lparr>clock = 0, s3 = [], files = [], dirs = [], trace = [Secret_get ''set'']\<rparr>"

definition demo_after_b1 :: state where
  "demo_after_b1 =
     \<lparr>clock = 1, s3 = [(checkpoint_key ''b1'', Checkpoint_json 0)], files = [], dirs = [],
      trace = [Secret_get ''set'', S3_get (checkpoint_key ''b1''),
               Run (query_command demo_env demo_cfg ''b1'' [''m1''] 0 0),
               S3_put (checkpoint_key ''b1'')]\<rparr>"

text \<open>A request for one bucket.\<close>


definition one_bucket :: json where
  "one_bucket = JDict [(''buckets'', JList
     [JDict [(''name'', JStr ''b1''), (''measurements'', JList [JStr ''m1''])]])]"

text \<open>The state of that run after the extraction of \<open>b2\<close> failed.\<close>


definition demo_after_b2 :: state where
  "demo_after_b2 =
     \<lparr>clock = 2, s3 = [(checkpoint_key ''b1'', Checkpoint_json 0)],
      files = [(temp_csv, Bytes [])], dirs = [],
      trace = trace demo_after_b1 @ [S3_get (checkpoint_key ''b2''),
               Run (query_command demo_env demo_cfg ''b2'' [''m2''] 0 0)]\<rparr>"

text \<open>The world in which the storage service refuses every read.\<close>


definition access_denied :: env where
  "access_denied =
     demo_env\<lparr>s3_get_error := (\<lambda>k. Some (ClientError ''AccessDenied'' [Lit ''Access Denied'']))\<rparr>"

text \<open>The statements of the daily restore handler before its loop: they give the settings
  and the validated backup date, and create the temporary directory.\<close>

definition daily_restore_setup :: "env \<Rightarrow> json \<Rightarrow> (settings \<times> string) prog" where
  "daily_restore_setup env event =
     (if \<not> all_set [environ env ''INFLUXDB_URL'', environ env ''INFLUXDB_TOKEN'',
                     environ env ''INFLUXDB_ORG'', environ env ''S3_BUCKET'']
      then raise (ValueError [Lit ''Missing required environment variables: INFLUXDB_URL, INFLUXDB_TOKEN, INFLUXDB_ORG, or S3_BUCKET''])
      else
        andthen (lift (dict_get event ''backup_date'' JNull)) (\<lambda>given.
        if \<not> truthy given
        then raise (ValueError [Lit ''Missing backup_date in event (format: YYYY-MM-DD)''])
        else
        andthen (lift (check_format env given ''%Y-%m-%d''
                   [Lit ''Invalid backup_date format, expected YYYY-MM-DD''])) (\<lambda>backup_date.
        andthen (get_influx_token env (getenv_or env ''INFLUXDB_TOKEN'' [])) (\<lambda>token.
        andthen (modify (makedirs temp_dir)) (\<lambda>_.
        succeed (\<lparr>influx_url = getenv_or env ''INFLUXDB_URL'' [],
                    influx_org = getenv_or env ''INFLUXDB_ORG'' [],
                    influx_token = token,
                    s3_bucket = getenv_or env ''S3_BUCKET'' []\<rparr>, backup_date))))))"

text \<open>A restore request (which also names a bucket of its own), the two artifacts of its
  date, and the states before and after the handler's first statements.\<close>

definition date_event :: json where
  "date_event = JDict [(''backup_date'', JStr ''2024-01-01''),
                       (''buckets'', JList [JDict [(''name'', JStr ''other_bucket'')]])]"

definition asset_artifact :: "string \<times> content" where
  "asset_artifact =
     (''influx-backups/daily/2024-01-01/asset_bucket/data-2024-01-01.csv.gz'',
      Gzip_of (Bytes ''rows''))"

definition cloud_artifact :: "string \<times> content" where
  "cloud_artifact =
     (''influx-backups/daily/2024-01-01/cloud_bucket/data-2024-01-01.csv.gz'',
      Gzip_of (Bytes ''rows''))"

definition stored :: "(string \<times> content) list \<Rightarrow> state" where
  "stored objects = \<lparr>clock = 0, s3 = objects, files = [], dirs = [], trace = []\<rparr>"

definition restoring :: "(string \<times> content) list \<Rightarrow> state" where
  "restoring objects =
     \<lparr>clock = 0, s3 = objects, files = [], dirs = [temp_dir], trace = [Secret_get ''set'']\<rparr>"

text \<open>A backup request whose only bucket has no measurements.\<close>

definition skipped_request :: json where
  "skipped_request = JDict [(''buckets'', JList
     [JDict [(''name'', JStr ''b0''), (''measurements'', JList [])]])]"






section \<open>Basic facts\<close>

lemma andthen_assoc: "andthen (andthen m f) g = andthen m (\<lambda>x. andthen (f x) g)"
  by (auto simp: andthen_def fun_eq_iff split: prod.splits sum.splits)

lemma andthen_raise: "andthen (raise e) f = raise e"
  by (simp add: andthen_def raise_def)

lemma andthen_succeed: "andthen (succeed x) f = f x"
  by (simp add: andthen_def succeed_def)

lemma daily_backup_main_setup:
  "daily_backup_main env event =
     andthen (daily_backup_setup env event) (\<lambda>(cfg, current_time, configs).
       andthen (process_buckets env cfg current_time [] configs) (\<lambda>backed_up_buckets.
         succeed \<lparr>statusCode = 200,
                 body = Buckets_body
                          [Lit ''Incremental backup completed for buckets '',
                           Vals backed_up_buckets]
                          backed_up_buckets\<rparr>))"
  by (simp add: daily_backup_main_def daily_backup_setup_def Let_def andthen_assoc
      andthen_raise andthen_succeed)

lemma key_neq: "artifact_key d b \<noteq> checkpoint_key b'" "checkpoint_key b' \<noteq> artifact_key d b"
  by (simp_all add: artifact_key_def checkpoint_key_def)

lemma get_last_backup_time_state:
  "snd (get_last_backup_time env b s) = record_call (S3_get (checkpoint_key b)) s"
  by (simp add: get_last_backup_time_def s3_get_object_def split: option.splits sum.splits)

lemma query_to_file_state:
  "snd (query_to_file env cmd temp_csv s) = after_query env cmd s"
  by (simp add: query_to_file_def subprocess_run_def record_call_def after_query_def Let_def min_def)

lemma query_to_file_result:
  "fst (query_to_file env cmd temp_csv s) =
     (if seconds 300 < elapsed (influx env cmd)
      then Inl (TimeoutExpired [Lit ''Command '', Vals cmd, Lit '' timed out''])
      else Inr (influx env cmd))"
  by (simp add: query_to_file_def subprocess_run_def record_call_def Let_def)

lemma getsize_after_query:
  "getsize_is_zero temp_csv (after_query env cmd s) =
     (Inr (stdout (influx env cmd) = []), after_query env cmd s)"
  by (simp add: getsize_is_zero_def after_query_def update_conv')

lemma path_skip: "process_bucket env cfg ct backed (b, []) s = (Inr backed, s)"
  by (simp add: process_bucket_def succeed_def)

lemma path_checkpoint_error:
  assumes "ms \<noteq> []" "fst (get_last_backup_time env b s) = Inl e"
  shows "process_bucket env cfg ct backed (b, ms) s =
           (Inl e, record_call (S3_get (checkpoint_key b)) s)"
proof -
  have "get_last_backup_time env b s = (Inl e, record_call (S3_get (checkpoint_key b)) s)"
    using assms(2) get_last_backup_time_state[of env b s]
    by (cases "get_last_backup_time env b s") simp
  then show ?thesis using assms(1) by (simp add: process_bucket_def andthen_def)
qed

lemma path_prefix:
  assumes "ms \<noteq> []" "fst (get_last_backup_time env b s) = Inr start"
  shows "process_bucket env cfg ct backed (b, ms) s =
    (let cmd = query_command env cfg b ms start ct; p = influx env cmd;
         sq = after_start env cfg ct b ms start s in
     if seconds 300 < elapsed p
     then (Inl (TimeoutExpired [Lit ''Command '', Vals cmd, Lit '' timed out'']), sq)
     else if returncode p \<noteq> 0
     then (Inl (Exception [Lit ''Query failed for '', Val b, Lit '': '', Val (stderr p)]), sq)
     else if stdout p = [] then
        (case update_last_backup_time env ct b (remove_quietly env temp_csv sq) of
           (Inl e, s') \<Rightarrow> (Inl e, s') | (Inr u, s') \<Rightarrow> (Inr (backed @ [b]), s'))
     else (case compress env temp_csv temp_gzip sq of
             (Inl e, s') \<Rightarrow> (Inl e, s')
           | (Inr u, sc) \<Rightarrow>
             (case s3_upload_file env temp_gzip (artifact_key (strftime env ''%Y-%m-%d'' ct) b)
                     (remove_quietly env temp_csv sc) of
                (Inl e, s') \<Rightarrow> (Inl e, remove_quietly env temp_gzip s')
              | (Inr u, su) \<Rightarrow>
                 (case update_last_backup_time env ct b (remove_quietly env temp_gzip su) of
                   (Inl e, s') \<Rightarrow> (Inl e, s') | (Inr u, s') \<Rightarrow> (Inr (backed @ [b]), s')))))"
proof -
  have g: "get_last_backup_time env b s = (Inr start, record_call (S3_get (checkpoint_key b)) s)"
    using assms(2) get_last_backup_time_state[of env b s]
    by (cases "get_last_backup_time env b s") simp
  let ?cmd = "query_command env cfg b ms start ct"
  let ?s1 = "record_call (S3_get (checkpoint_key b)) s"
  have q: "query_to_file env ?cmd temp_csv ?s1 =
      (if seconds 300 < elapsed (influx env ?cmd)
      then Inl (TimeoutExpired [Lit ''Command '', Vals ?cmd, Lit '' timed out''])
      else Inr (influx env ?cmd), after_query env ?cmd ?s1)"
    using query_to_file_state[of env ?cmd ?s1] query_to_file_result[of env ?cmd ?s1]
    by (cases "query_to_file env ?cmd temp_csv ?s1") simp
  show ?thesis
    using assms(1)
    by (simp add: process_bucket_def andthen_def g Let_def after_start_def q getsize_after_query
        raise_def succeed_def modify_def try_finally_def split: prod.splits sum.splits)
qed

lemmas tail_defs = compress_def s3_upload_file_def update_last_backup_time_def s3_put_object_def
  remove_quietly_def after_start_def after_query_def record_call_def

lemma process_buckets_append:
  "process_buckets env cfg ct backed (xs @ ys) s =
     (case process_buckets env cfg ct backed xs s of
        (Inl e, s1) \<Rightarrow> (Inl e, s1)
      | (Inr backed', s1) \<Rightarrow> process_buckets env cfg ct backed' ys s1)"
  by (induction xs arbitrary: backed s)
     (auto simp: andthen_def succeed_def split: prod.splits sum.splits)


lemma handle_Inr: "main s = (Inr r, s') \<Longrightarrow> handle main s = (r, s')"
  by (simp add: handle_def)


subsection \<open>One bucket of the daily backup\<close>


lemma unit_failure_keeps_checkpoints:
  assumes "process_bucket env cfg ct backed (b, ms) s = (Inl e, s')"
  shows "map_of (s3 s') (checkpoint_key k) = map_of (s3 s) (checkpoint_key k)"
proof (cases "ms = []")
  case True
  then show ?thesis using assms by (simp add: path_skip)
next
  case ms: False
  show ?thesis
  proof (cases "fst (get_last_backup_time env b s)")
    case (Inl e')
    then show ?thesis using assms path_checkpoint_error[OF ms Inl, of cfg ct backed]
      by (auto simp: record_call_def)
  next
    case (Inr start)
    show ?thesis using assms unfolding path_prefix[OF ms Inr]
      by (auto simp: Let_def tail_defs update_conv' key_neq
          split: if_splits option.splits prod.splits sum.splits)
  qed
qed

lemma unit_write_is_last:
  assumes "process_bucket env cfg ct backed (b, ms) s = (r, s')"
      and "S3_put (checkpoint_key b) \<in> set (new_calls s s')"
  shows "\<exists>start. fst (get_last_backup_time env b s) = Inr start
            \<and> elapsed (influx env (query_command env cfg b ms start ct)) \<le> seconds 300
            \<and> returncode (influx env (query_command env cfg b ms start ct)) = 0
            \<and> (if stdout (influx env (query_command env cfg b ms start ct)) = []
                then new_calls s s' =
                       [S3_get (checkpoint_key b), Run (query_command env cfg b ms start ct),
                        S3_put (checkpoint_key b)]
                else gzip_error env temp_gzip = None
                   \<and> s3_upload_error env (artifact_key (strftime env ''%Y-%m-%d'' ct) b) = None
                   \<and> new_calls s s' =
                       [S3_get (checkpoint_key b), Run (query_command env cfg b ms start ct),
                        S3_upload (artifact_key (strftime env ''%Y-%m-%d'' ct) b),
                        S3_put (checkpoint_key b)])"
proof (cases "ms = []")
  case True
  then show ?thesis using assms by (simp add: path_skip new_calls_def)
next
  case ms: False
  show ?thesis
  proof (cases "fst (get_last_backup_time env b s)")
    case (Inl e')
    then show ?thesis using assms path_checkpoint_error[OF ms Inl, of cfg ct backed]
      by (auto simp: record_call_def new_calls_def)
  next
    case (Inr start)
    have "elapsed (influx env (query_command env cfg b ms start ct)) \<le> seconds 300
            \<and> returncode (influx env (query_command env cfg b ms start ct)) = 0
            \<and> (if stdout (influx env (query_command env cfg b ms start ct)) = []
                then new_calls s s' =
                       [S3_get (checkpoint_key b), Run (query_command env cfg b ms start ct),
                        S3_put (checkpoint_key b)]
                else gzip_error env temp_gzip = None
                   \<and> s3_upload_error env (artifact_key (strftime env ''%Y-%m-%d'' ct) b) = None
                   \<and> new_calls s s' =
                       [S3_get (checkpoint_key b), Run (query_command env cfg b ms start ct),
                        S3_upload (artifact_key (strftime env ''%Y-%m-%d'' ct) b),
                        S3_put (checkpoint_key b)])"
      using assms unfolding path_prefix[OF ms Inr]
      by (auto simp: Let_def tail_defs new_calls_def update_conv'
          split: if_splits option.splits prod.splits sum.splits)
    then show ?thesis using Inr by blast
  qed
qed

lemma unit_success_sets_checkpoint:
  assumes "process_bucket env cfg ct backed (b, ms) s = (Inr x, s')" "ms \<noteq> []"
  shows "map_of (s3 s') (checkpoint_key b) = Some (Checkpoint_json ct)"
proof (cases "fst (get_last_backup_time env b s)")
  case (Inl e')
  then show ?thesis using assms path_checkpoint_error[OF assms(2) Inl, of cfg ct backed]
    by auto
next
  case (Inr start)
  show ?thesis using assms(1) unfolding path_prefix[OF assms(2) Inr]
    by (auto simp: Let_def tail_defs update_conv'
        split: if_splits option.splits prod.splits sum.splits)
qed

subsection \<open>Evaluation of the examples\<close>

lemma strip_plain:
  "strip ''b1'' = ''b1''" "strip ''m1'' = ''m1''" "strip ''b2'' = ''b2''" "strip ''m2'' = ''m2''"
  "strip ''b3'' = ''b3''" "strip ''m3'' = ''m3''"
  by (simp_all add: strip_def is_space_def)

lemmas demo_defs = demo_env_def demo_state_def demo_cfg_def failing_for_def demo_started_def

lemmas setup_defs = daily_backup_setup_def getenv_or_def andthen_def lift_def succeed_def
  raise_def now_def get_influx_token_def validate_bucket_def record_call_def

lemmas unit_defs = process_bucket_def andthen_def succeed_def raise_def modify_def try_finally_def
  get_last_backup_time_def s3_get_object_def update_last_backup_time_def s3_put_object_def
  query_to_file_def subprocess_run_def getsize_is_zero_def compress_def s3_upload_file_def
  remove_quietly_def record_call_def seconds_def timedelta_hours_def

lemmas eval_defs = unit_defs Let_def demo_defs update_conv' temp_csv_def temp_gzip_def
  checkpoint_key_def artifact_key_def query_command_def dq_def

lemma b2_setup:
  "daily_backup_setup (failing_for ''b2'') three_buckets demo_state =
     (Inr (demo_cfg, 0, [(''b1'', [''m1''])] @ (''b2'', [''m2'']) # [(''b3'', [''m3''])]),
      demo_started)"
  by (simp add: three_buckets_def demo_defs setup_defs strip_plain)

lemma b2_pre:
  "process_buckets (failing_for ''b2'') demo_cfg 0 [] [(''b1'', [''m1''])] demo_started =
     (Inr [''b1''], demo_after_b1)"
  by (simp add: eval_defs demo_after_b1_def)

lemma b2_unit:
  "process_bucket (failing_for ''b2'') demo_cfg 0 [''b1''] (''b2'', [''m2'']) demo_after_b1 =
     (Inl (Exception [Lit ''Query failed for '', Val ''b2'', Lit '': '', Val ''error'']),
      demo_after_b2)"
  by (simp add: eval_defs demo_after_b1_def demo_after_b2_def)

lemma b1_unit:
  "process_bucket (failing_for ''b2'') demo_cfg 0 [] (''b1'', [''m1'']) demo_started =
     (Inr [''b1''], demo_after_b1)"
  by (simp add: eval_defs demo_after_b1_def)

lemma one_bucket_setup:
  "daily_backup_setup demo_env one_bucket demo_state =
     (Inr (demo_cfg, 0, [] @ (''b1'', [''m1'']) # []), demo_started)"
  by (simp add: one_bucket_def demo_defs setup_defs strip_plain)


subsection \<open>Daily restore\<close>

lemma andthen_if:
  "andthen (if c then m else n) f = (if c then andthen m f else andthen n f)"
  by simp

lemma daily_restore_main_setup:
  "daily_restore_main env event =
     andthen (daily_restore_setup env event) (\<lambda>(cfg, backup_date).
       (\<lambda>s. case restore_buckets env cfg backup_date ([], []) (restore_targets backup_date) s of
               (tally, s') \<Rightarrow>
                 (Inr (restore_response backup_date (restore_targets backup_date)
                         (fst tally) (snd tally)),
                  rmdir_quietly temp_dir s')))"
  by (auto simp: daily_restore_main_def daily_restore_setup_def Let_def andthen_def raise_def
      succeed_def fun_eq_iff split: prod.splits sum.splits)

lemma restore_bucket_tally:
  "restore_bucket env cfg d tally t s =
     ((fst tally @ (if isl (fst (restore_attempt env cfg d t s)) then [] else [bucket_name t]),
       snd tally @ (if isl (fst (restore_attempt env cfg d t s)) then [bucket_name t] else [])),
      snd (restore_attempt env cfg d t s))"
  by (auto simp: restore_bucket_def split: prod.splits sum.splits exn.splits)



lemmas restore_defs = restore_attempt_def s3_download_file_def decompress_def remove_quietly_def
  subprocess_run_def andthen_def modify_def raise_def succeed_def record_call_def Let_def

lemmas restore_eval = restore_defs restore_key_def restore_gzip_def restore_csv_def
  write_command_def restore_targets_def temp_dir_def update_conv' delete_conv' seconds_def
  demo_env_def demo_cfg_def restoring_def stored_def asset_artifact_def cloud_artifact_def

lemma restore_setup_stored:
  "daily_restore_setup demo_env date_event (stored objects) =
     (Inr (demo_cfg, ''2024-01-01''), restoring objects)"
  by (simp add: daily_restore_setup_def date_event_def demo_env_def demo_cfg_def stored_def
      restoring_def getenv_or_def andthen_def lift_def succeed_def raise_def check_format_def
      get_influx_token_def record_call_def modify_def makedirs_def)






lemma restore_buckets_pair_state:
  "snd (restore_buckets env cfg d tally [a, b] s) =
     snd (restore_attempt env cfg d b (snd (restore_attempt env cfg d a s)))"
  by (simp add: restore_bucket_tally)


lemma daily_restore_handler_setup:
  assumes "daily_restore_setup env event s0 = (Inr (cfg, d), s)"
  shows "daily_restore_handler env event s0 =
           (restore_response d (restore_targets d)
              (fst (fst (restore_buckets env cfg d ([], []) (restore_targets d) s)))
              (snd (fst (restore_buckets env cfg d ([], []) (restore_targets d) s))),
            rmdir_quietly temp_dir (snd (restore_buckets env cfg d ([], []) (restore_targets d) s)))"
  using assms
  by (simp add: daily_restore_handler_def handle_def daily_restore_main_setup andthen_def
      split: prod.splits)

lemma daily_backup_handler_setup:
  assumes "daily_backup_setup env event s0 = (Inr (cfg, ct, configs), s)"
      and "process_buckets env cfg ct [] configs s = (Inr backed, s')"
  shows "daily_backup_handler env event s0 =
           (\<lparr>statusCode = 200,
             body = Buckets_body
                      [Lit ''Incremental backup completed for buckets '', Vals backed]
                      backed\<rparr>, s')"
  using assms
  by (simp add: daily_backup_handler_def handle_def daily_backup_main_setup andthen_def
      succeed_def)

lemma skipped_setup:
  "daily_backup_setup demo_env skipped_request demo_state =
     (Inr (demo_cfg, 0, [(''b0'', [])]), demo_started)"
  by (simp add: skipped_request_def demo_defs setup_defs strip_def is_space_def)

lemma nothing_stored:
  "fst (fst (restore_buckets demo_env demo_cfg ''2024-01-01'' ([], [])
               (restore_targets ''2024-01-01'') (restoring []))) = []"
  by (simp add: restore_targets_def restore_bucket_tally restore_eval)

lemma asset_stored:
  "fst (fst (restore_buckets demo_env demo_cfg ''2024-01-01'' ([], [])
               (restore_targets ''2024-01-01'') (restoring [asset_artifact]))) = [''asset_bucket'']"
  by (simp add: restore_targets_def restore_bucket_tally restore_eval)




subsection \<open>The four handlers\<close>









section \<open>The claims\<close>

text \<open>
  C2. In a run of the daily backup over an ordered list of bucket configurations, let the
  buckets before the \<open>N\<close>-th be processed without an exception, and let the extraction
  tool exit with a non-zero status (within its time limit) for the \<open>N\<close>-th. Then the
  handler returns a response with status 500 that carries the tool's error text, and the
  final state is the one right after that failed extraction, whatever buckets follow in
  the list: the last outside calls are the checkpoint read and the query of bucket \<open>N\<close>,
  so nothing is read, extracted or written for a later bucket. The stored objects are
  those left by the buckets before \<open>N\<close>: their checkpoints stay advanced.
\<close>

theorem extraction_failure_aborts_run:
  assumes init: "daily_backup_setup env event s0 = (Inr (cfg, ct, pre @ (b, ms) # post), s)"
      and pre: "process_buckets env cfg ct [] pre s = (Inr backed, s1)"
      and ms: "ms \<noteq> []"
      and start: "fst (get_last_backup_time env b s1) = Inr start"
      and p: "p = influx env (query_command env cfg b ms start ct)"
      and intime: "elapsed p \<le> seconds 300"
      and nonzero: "returncode p \<noteq> 0"
  shows "\<exists>s2. daily_backup_handler env event s0 =
           (\<lparr>statusCode = 500,
             body = Error_body [Lit ''Query failed for '', Val b, Lit '': '', Val (stderr p)]\<rparr>, s2)
         \<and> s3 s2 = s3 s1
         \<and> trace s2 = trace s1 @ [S3_get (checkpoint_key b),
                                   Run (query_command env cfg b ms start ct)]"
proof -
  let ?e = "Exception [Lit ''Query failed for '', Val b, Lit '': '', Val (stderr p)]"
  let ?s2 = "after_start env cfg ct b ms start s1"
  have unit: "process_bucket env cfg ct backed (b, ms) s1 = (Inl ?e, ?s2)"
    using p intime nonzero by (simp add: path_prefix[OF ms start] Let_def)
  have loop: "process_buckets env cfg ct [] (pre @ (b, ms) # post) s = (Inl ?e, ?s2)"
    by (simp add: process_buckets_append pre andthen_def unit)
  have "daily_backup_main env event s0 = (Inl ?e, ?s2)"
    by (simp add: daily_backup_main_setup andthen_def init loop)
  then have "daily_backup_handler env event s0 =
      (\<lparr>statusCode = 500, body = Error_body (str_of ?e)\<rparr>, ?s2)"
    unfolding daily_backup_handler_def by (simp add: handle_def)
  moreover have "s3 ?s2 = s3 s1"
    by (simp add: after_start_def after_query_def record_call_def)
  moreover have "trace ?s2 = trace s1 @ [S3_get (checkpoint_key b),
                                   Run (query_command env cfg b ms start ct)]"
    by (simp add: after_start_def after_query_def record_call_def)
  ultimately show ?thesis by simp
qed

theorem extraction_failure_aborts_run_witness:
  "daily_backup_setup (failing_for ''b2'') three_buckets demo_state =
     (Inr (demo_cfg, 0, [(''b1'', [''m1''])] @ (''b2'', [''m2'']) # [(''b3'', [''m3''])]),
      demo_started)
   \<and> process_buckets (failing_for ''b2'') demo_cfg 0 [] [(''b1'', [''m1''])] demo_started =
       (Inr [''b1''], demo_after_b1)
   \<and> fst (get_last_backup_time (failing_for ''b2'') ''b2'' demo_after_b1) = Inr (- 86399999999)
   \<and> returncode (influx (failing_for ''b2'')
        (query_command (failing_for ''b2'') demo_cfg ''b2'' [''m2''] (- 86399999999) 0)) = 1
   \<and> fst (daily_backup_handler (failing_for ''b2'') three_buckets demo_state) =
       \<lparr>statusCode = 500,
        body = Error_body [Lit ''Query failed for '', Val ''b2'', Lit '': '', Val ''error'']\<rparr>
   \<and> s3 (snd (daily_backup_handler (failing_for ''b2'') three_buckets demo_state)) =
       [(checkpoint_key ''b1'', Checkpoint_json 0)]
   \<and> trace (snd (daily_backup_handler (failing_for ''b2'') three_buckets demo_state)) =
       trace demo_after_b1 @ [S3_get (checkpoint_key ''b2''),
         Run (query_command (failing_for ''b2'') demo_cfg ''b2'' [''m2''] (- 86399999999) 0)]"
proof -
  let ?env = "failing_for ''b2''"
  let ?p = "influx ?env (query_command ?env demo_cfg ''b2'' [''m2''] (- 86399999999) 0)"
  have start: "fst (get_last_backup_time ?env ''b2'' demo_after_b1) = Inr (- 86399999999)"
    by (simp add: eval_defs demo_after_b1_def)
  have p: "elapsed ?p = 1" "returncode ?p = 1" "stderr ?p = ''error''"
    by (simp_all add: eval_defs)
  have intime: "elapsed ?p \<le> seconds 300" and nonzero: "returncode ?p \<noteq> 0"
    using p by (simp_all add: seconds_def)
  have ms: "[''m2''] \<noteq> []" by simp
  from extraction_failure_aborts_run [OF b2_setup b2_pre ms start refl intime nonzero]
  obtain s2 where
    "daily_backup_handler ?env three_buckets demo_state =
       (\<lparr>statusCode = 500,
         body = Error_body [Lit ''Query failed for '', Val ''b2'', Lit '': '', Val (stderr ?p)]\<rparr>,
        s2)"
    "s3 s2 = s3 demo_after_b1"
    "trace s2 = trace demo_after_b1 @ [S3_get (checkpoint_key ''b2''),
       Run (query_command ?env demo_cfg ''b2'' [''m2''] (- 86399999999) 0)]"
    by blast
  then show ?thesis
    using b2_setup b2_pre start p by (simp add: demo_after_b1_def)
qed

text \<open>
  C1. For one bucket's unit of work in the daily backup, started in any state of any
  world: if the unit ends with an exception (the checkpoint read, the extraction, the
  compression, the upload or the checkpoint write failed), every stored checkpoint is
  what it was before. If the unit calls the storage service to write the bucket's
  checkpoint, then the extraction tool had exited with status 0 within its time limit,
  and that write is the last outside call of the unit: it follows the checkpoint read and
  the query when the output was empty, and the successful compression and upload of the
  artifact otherwise. A unit that ends normally for a bucket with measurements leaves
  the checkpoint at the run's current time.
\<close>

theorem checkpoint_written_only_after_extraction:
  assumes "process_bucket env cfg ct backed (b, ms) s = (r, s')"
  shows "(\<forall>e. r = Inl e \<longrightarrow>
            (\<forall>k. map_of (s3 s') (checkpoint_key k) = map_of (s3 s) (checkpoint_key k)))
       \<and> (S3_put (checkpoint_key b) \<in> set (new_calls s s') \<longrightarrow>
            (\<exists>start. fst (get_last_backup_time env b s) = Inr start
               \<and> elapsed (influx env (query_command env cfg b ms start ct)) \<le> seconds 300
               \<and> returncode (influx env (query_command env cfg b ms start ct)) = 0
               \<and> (if stdout (influx env (query_command env cfg b ms start ct)) = []
                   then new_calls s s' =
                       [S3_get (checkpoint_key b), Run (query_command env cfg b ms start ct),
                        S3_put (checkpoint_key b)]
                   else gzip_error env temp_gzip = None
                      \<and> s3_upload_error env (artifact_key (strftime env ''%Y-%m-%d'' ct) b) = None
                      \<and> new_calls s s' =
                       [S3_get (checkpoint_key b), Run (query_command env cfg b ms start ct),
                        S3_upload (artifact_key (strftime env ''%Y-%m-%d'' ct) b),
                        S3_put (checkpoint_key b)])))
       \<and> (\<forall>x. r = Inr x \<and> ms \<noteq> [] \<longrightarrow>
            map_of (s3 s') (checkpoint_key b) = Some (Checkpoint_json ct))"
  using assms unit_failure_keeps_checkpoints[of env cfg ct backed b ms s _ s']
    unit_write_is_last[OF assms] unit_success_sets_checkpoint[of env cfg ct backed b ms s _ s']
  by blast

theorem checkpoint_written_only_after_extraction_witness:
  "process_bucket (failing_for ''b2'') demo_cfg 0 [''b1''] (''b2'', [''m2'']) demo_after_b1 =
     (Inl (Exception [Lit ''Query failed for '', Val ''b2'', Lit '': '', Val ''error'']),
      demo_after_b2)
   \<and> map_of (s3 demo_after_b2) (checkpoint_key ''b2'') = map_of (s3 demo_after_b1) (checkpoint_key ''b2'')
   \<and> map_of (s3 demo_after_b2) (checkpoint_key ''b1'') = map_of (s3 demo_after_b1) (checkpoint_key ''b1'')
   \<and> process_bucket (failing_for ''b2'') demo_cfg 0 [] (''b1'', [''m1'']) demo_started =
       (Inr [''b1''], demo_after_b1)
   \<and> S3_put (checkpoint_key ''b1'') \<in> set (new_calls demo_started demo_after_b1)
   \<and> returncode (influx (failing_for ''b2'')
         (query_command (failing_for ''b2'') demo_cfg ''b1'' [''m1''] (- 86400000000) 0)) = 0
   \<and> new_calls demo_started demo_after_b1 =
       [S3_get (checkpoint_key ''b1''),
        Run (query_command (failing_for ''b2'') demo_cfg ''b1'' [''m1''] (- 86400000000) 0),
        S3_put (checkpoint_key ''b1'')]
   \<and> map_of (s3 demo_after_b1) (checkpoint_key ''b1'') = Some (Checkpoint_json 0)"
proof -
  have put: "S3_put (checkpoint_key ''b1'') \<in> set (new_calls demo_started demo_after_b1)"
    by (simp add: new_calls_def demo_started_def demo_after_b1_def)
  have start: "fst (get_last_backup_time (failing_for ''b2'') ''b1'' demo_started) = Inr (- 86400000000)"
    by (simp add: eval_defs)
  have quiet: "stdout (influx (failing_for ''b2'')
         (query_command (failing_for ''b2'') demo_cfg ''b1'' [''m1''] (- 86400000000) 0)) = []"
    by (simp add: eval_defs)
  from checkpoint_written_only_after_extraction [OF b2_unit]
  have kept: "\<forall>k. map_of (s3 demo_after_b2) (checkpoint_key k) = map_of (s3 demo_after_b1) (checkpoint_key k)"
    by blast
  from checkpoint_written_only_after_extraction [OF b1_unit] put start quiet
  have "returncode (influx (failing_for ''b2'')
         (query_command (failing_for ''b2'') demo_cfg ''b1'' [''m1''] (- 86400000000) 0)) = 0
     \<and> new_calls demo_started demo_after_b1 =
       [S3_get (checkpoint_key ''b1''),
        Run (query_command (failing_for ''b2'') demo_cfg ''b1'' [''m1''] (- 86400000000) 0),
        S3_put (checkpoint_key ''b1'')]
     \<and> map_of (s3 demo_after_b1) (checkpoint_key ''b1'') = Some (Checkpoint_json 0)"
    by auto
  with kept b2_unit b1_unit put show ?thesis by simp
qed

text \<open>
  C5. The claim asks that the temporary CSV file and the temporary gzip file of a bucket
  are removed on every exit path of its unit of work. The upload is wrapped in
  \<open>try ... finally\<close> and removes the gzip file also when it fails, but nothing removes the
  CSV file when the extraction tool fails: in the run over three buckets in which the
  extraction of the second exits with status 1, the handler answers 500 and
  \<open>/tmp/data.csv\<close> is still there.
\<close>


theorem extraction_failure_leaves_temp_csv:
  "fst (daily_backup_handler (failing_for ''b2'') three_buckets demo_state) =
     \<lparr>statusCode = 500,
      body = Error_body [Lit ''Query failed for '', Val ''b2'', Lit '': '', Val ''error'']\<rparr>
   \<and> file_exists (snd (daily_backup_handler (failing_for ''b2'') three_buckets demo_state)) temp_csv"
proof -
  have "process_buckets (failing_for ''b2'') demo_cfg 0 []
          ([(''b1'', [''m1''])] @ (''b2'', [''m2'']) # [(''b3'', [''m3''])]) demo_started =
        (Inl (Exception [Lit ''Query failed for '', Val ''b2'', Lit '': '', Val ''error'']),
         demo_after_b2)"
    by (simp add: andthen_def b1_unit b2_unit)
  then have "daily_backup_main (failing_for ''b2'') three_buckets demo_state =
        (Inl (Exception [Lit ''Query failed for '', Val ''b2'', Lit '': '', Val ''error'']),
         demo_after_b2)"
    by (simp add: daily_backup_main_setup andthen_def b2_setup)
  then show ?thesis
    by (simp add: daily_backup_handler_def handle_def file_exists_def demo_after_b2_def)
qed



text \<open>
  C7. \<open>get_last_backup_time\<close> for a bucket whose checkpoint object is not stored (the
  read is answered with \<open>NoSuchKey\<close>) returns the time of the call minus 24 hours, that
  is minus 86400000000 microseconds, and raises nothing. For any other error of the read
  it raises that error, and so does the processing of any bucket list that starts with
  this bucket: the failure ends the run.
\<close>

theorem missing_checkpoint_defaults_to_24h:
  "(s3_get_error env (checkpoint_key b) = None \<and> map_of (s3 s) (checkpoint_key b) = None \<longrightarrow>
      fst (get_last_backup_time env b s) = Inr (clock s - 24 * 3600 * 1000000))
   \<and> (\<forall>e. fst (s3_get_object env (checkpoint_key b) s) = Inl e \<and> is_NoSuchKey e \<longrightarrow>
      fst (get_last_backup_time env b s) = Inr (clock s - 24 * 3600 * 1000000))
   \<and> (\<forall>e. fst (s3_get_object env (checkpoint_key b) s) = Inl e \<and> \<not> is_NoSuchKey e \<longrightarrow>
      fst (get_last_backup_time env b s) = Inl e
      \<and> (\<forall>cfg ct backed ms rest. ms \<noteq> [] \<longrightarrow>
            fst (process_buckets env cfg ct backed ((b, ms) # rest) s) = Inl e))"
proof -
  have absent: "fst (get_last_backup_time env b s) = Inr (clock s - 24 * 3600 * 1000000)"
    if "s3_get_error env (checkpoint_key b) = None" "map_of (s3 s) (checkpoint_key b) = None"
    using that
    by (simp add: get_last_backup_time_def s3_get_object_def record_call_def
        timedelta_hours_def seconds_def)
  have reported: "fst (get_last_backup_time env b s) = Inr (clock s - 24 * 3600 * 1000000)"
    if "fst (s3_get_object env (checkpoint_key b) s) = Inl e" "is_NoSuchKey e" for e
    using that
    by (auto simp: get_last_backup_time_def s3_get_object_def record_call_def
        timedelta_hours_def seconds_def split: option.splits)
  have other: "fst (get_last_backup_time env b s) = Inl e"
    if "fst (s3_get_object env (checkpoint_key b) s) = Inl e" "\<not> is_NoSuchKey e" for e
    using that
    by (auto simp: get_last_backup_time_def s3_get_object_def record_call_def
        split: option.splits)
  have fatal: "fst (process_buckets env cfg ct backed ((b, ms) # rest) s) = Inl e"
    if "fst (s3_get_object env (checkpoint_key b) s) = Inl e" "\<not> is_NoSuchKey e" "ms \<noteq> []"
    for e cfg ct backed ms rest
    using path_checkpoint_error[OF that(3) other[OF that(1,2)], of cfg ct backed]
    by (simp add: andthen_def)
  from absent reported other fatal show ?thesis by blast
qed

theorem missing_checkpoint_defaults_to_24h_witness:
  "s3_get_error demo_env (checkpoint_key ''b1'') = None
   \<and> map_of (s3 demo_started) (checkpoint_key ''b1'') = None
   \<and> fst (get_last_backup_time demo_env ''b1'' demo_started) = Inr (- 86400000000)
   \<and> fst (s3_get_object demo_env (checkpoint_key ''b1'') demo_started) =
       Inl (ClientError ''NoSuchKey'' [Lit ''The specified key does not exist.''])
   \<and> fst (s3_get_object access_denied (checkpoint_key ''b1'') demo_started) =
       Inl (ClientError ''AccessDenied'' [Lit ''Access Denied''])
   \<and> fst (get_last_backup_time access_denied ''b1'' demo_started) =
       Inl (ClientError ''AccessDenied'' [Lit ''Access Denied''])
   \<and> fst (process_buckets access_denied demo_cfg 0 [] [(''b1'', [''m1'']), (''b2'', [''m2''])]
            demo_started) =
       Inl (ClientError ''AccessDenied'' [Lit ''Access Denied''])"
proof -
  have a: "s3_get_error demo_env (checkpoint_key ''b1'') = None"
          "map_of (s3 demo_started) (checkpoint_key ''b1'') = None"
    by (simp_all add: demo_env_def demo_started_def)
  have n: "fst (s3_get_object demo_env (checkpoint_key ''b1'') demo_started) =
       Inl (ClientError ''NoSuchKey'' [Lit ''The specified key does not exist.''])"
    "is_NoSuchKey (ClientError ''NoSuchKey'' [Lit ''The specified key does not exist.''])"
    by (simp_all add: s3_get_object_def demo_env_def demo_started_def)
  have d: "fst (s3_get_object access_denied (checkpoint_key ''b1'') demo_started) =
       Inl (ClientError ''AccessDenied'' [Lit ''Access Denied''])"
    "\<not> is_NoSuchKey (ClientError ''AccessDenied'' [Lit ''Access Denied''])"
    by (simp_all add: s3_get_object_def access_denied_def demo_env_def)
  have m: "[''m1''] \<noteq> []" by simp
  from missing_checkpoint_defaults_to_24h [of demo_env "''b1''" demo_started] a
  have default: "fst (get_last_backup_time demo_env ''b1'' demo_started) =
                   Inr (clock demo_started - 24 * 3600 * 1000000)"
    by blast
  from missing_checkpoint_defaults_to_24h [of access_denied "''b1''" demo_started] d
  have raised: "fst (get_last_backup_time access_denied ''b1'' demo_started) =
                  Inl (ClientError ''AccessDenied'' [Lit ''Access Denied''])"
    and fatal: "\<forall>cfg ct backed ms rest. ms \<noteq> [] \<longrightarrow>
            fst (process_buckets access_denied cfg ct backed ((''b1'', ms) # rest) demo_started) =
              Inl (ClientError ''AccessDenied'' [Lit ''Access Denied''])"
    by blast+
  from fatal m
  have "fst (process_buckets access_denied demo_cfg 0 [] ((''b1'', [''m1'']) # [(''b2'', [''m2''])])
            demo_started) = Inl (ClientError ''AccessDenied'' [Lit ''Access Denied''])"
    by blast
  with a n(1) d(1) default raised show ?thesis
    by (simp add: demo_started_def)
qed





text \<open>
  C3. As stated the claim fails for the daily backup: a run whose only bucket is skipped
  for lack of measurements completes its iteration with no bucket backed up and answers
  200 with an empty list.
\<close>

theorem backup_success_without_buckets:
  "daily_backup_handler demo_env skipped_request demo_state =
     (\<lparr>statusCode = 200,
       body = Buckets_body [Lit ''Incremental backup completed for buckets '', Vals []] []\<rparr>,
      demo_started)"
proof -
  have "process_buckets demo_env demo_cfg 0 [] [(''b0'', [])] demo_started = (Inr [], demo_started)"
    by (simp add: path_skip andthen_def succeed_def)
  from daily_backup_handler_setup[OF skipped_setup this] show ?thesis .
qed

text \<open>
  C3, as the code has it. A daily restore that reaches its loop answers 500 when no bucket
  was restored and 200 when at least one was. A daily backup that completes its loop
  answers 200 with the list of the buckets backed up, whatever that list is, the empty
  list included; it answers 500 only when an exception ends the run.
\<close>

theorem overall_status_of_completed_runs:
  "(\<forall>cfg d s. daily_restore_setup env event s0 = (Inr (cfg, d), s) \<longrightarrow>
       statusCode (fst (daily_restore_handler env event s0)) =
         (if fst (fst (restore_buckets env cfg d ([], []) (restore_targets d) s)) = []
          then 500 else 200))
   \<and> (\<forall>cfg ct configs s backed s'.
         daily_backup_setup env event s0 = (Inr (cfg, ct, configs), s)
         \<and> process_buckets env cfg ct [] configs s = (Inr backed, s') \<longrightarrow>
         daily_backup_handler env event s0 =
           (\<lparr>statusCode = 200,
             body = Buckets_body
                      [Lit ''Incremental backup completed for buckets '', Vals backed]
                      backed\<rparr>, s'))"
proof -
  have r: "statusCode (fst (daily_restore_handler env event s0)) =
         (if fst (fst (restore_buckets env cfg d ([], []) (restore_targets d) s)) = []
          then 500 else 200)"
    if "daily_restore_setup env event s0 = (Inr (cfg, d), s)" for cfg d s
    by (simp add: daily_restore_handler_setup[OF that] restore_response_def)
  from r daily_backup_handler_setup show ?thesis by blast
qed

theorem overall_status_of_completed_runs_witness:
  "daily_restore_setup demo_env date_event (stored []) =
     (Inr (demo_cfg, ''2024-01-01''), restoring [])
   \<and> statusCode (fst (daily_restore_handler demo_env date_event (stored []))) = 500
   \<and> statusCode (fst (daily_restore_handler demo_env date_event (stored [asset_artifact]))) = 200
   \<and> daily_backup_setup demo_env one_bucket demo_state =
       (Inr (demo_cfg, 0, [] @ (''b1'', [''m1'']) # []), demo_started)
   \<and> process_buckets demo_env demo_cfg 0 [] ([] @ (''b1'', [''m1'']) # []) demo_started =
       (Inr [''b1''], demo_after_b1)
   \<and> statusCode (fst (daily_backup_handler demo_env one_bucket demo_state)) = 200"
proof -
  have loop: "process_buckets demo_env demo_cfg 0 [] ([] @ (''b1'', [''m1'']) # []) demo_started =
       (Inr [''b1''], demo_after_b1)"
    by (simp add: eval_defs demo_after_b1_def)
  note t1 = overall_status_of_completed_runs [of demo_env date_event "stored []"]
  note t2 = overall_status_of_completed_runs [of demo_env date_event "stored [asset_artifact]"]
  note t3 = overall_status_of_completed_runs [of demo_env one_bucket demo_state]
  from t1 restore_setup_stored[of "[]"] nothing_stored
  have a: "statusCode (fst (daily_restore_handler demo_env date_event (stored []))) = 500"
    by (metis (no_types, lifting))
  from t2 restore_setup_stored[of "[asset_artifact]"] asset_stored
  have b: "statusCode (fst (daily_restore_handler demo_env date_event (stored [asset_artifact]))) = 200"
    by (metis (no_types, lifting) list.distinct(1))
  from t3 one_bucket_setup loop
  have c: "daily_backup_handler demo_env one_bucket demo_state =
           (\<lparr>statusCode = 200,
             body = Buckets_body
                      [Lit ''Incremental backup completed for buckets '', Vals [''b1'']]
                      [''b1'']\<rparr>, demo_after_b1)"
    by blast
  from a b c loop one_bucket_setup restore_setup_stored[of "[]"] show ?thesis by simp
qed






end
